theory Spec2Isabelle
  imports Complex_Main
begin

section \<open>Dense forward-mode automatic differentiation: the functions of Math.hpp\<close>

text \<open>
  The C++ functions are templates over \<^verbatim>\<open>ValueType\<close> and \<^verbatim>\<open>numVars\<close>. The AD
  value and the toolbox are polymorphic in the scalar type. \<^verbatim>\<open>atan2\<close> and the three
  \<^verbatim>\<open>pow\<close> overloads are embedded for every scalar type that has the operators they
  use; the other functions are embedded at \<^typ>\<open>real\<close>, where rounding, infinities and
  NaN of an IEEE instantiation are outside the model and a quotient by zero is HOL's
  total division. The template parameter \<^verbatim>\<open>numVars\<close> is an argument of every function
  that constructs an AD value, after the indeterminate initial content of its result.
\<close>

subsection \<open>The AD value\<close>

text \<open>
  Modelled from the spec: \<^verbatim>\<open>Evaluation.hpp\<close> is not among the sources. An AD value is
  a scalar field \<^verbatim>\<open>value\<close> (here \<open>val\<close>) and a sequence \<^verbatim>\<open>derivatives\<close> of fixed length
  \<^verbatim>\<open>numVars\<close>.
\<close>

record 'a Evaluation =
  val :: 'a
  derivatives :: "'a list"

definition wf_Evaluation :: "nat \<Rightarrow> 'a Evaluation \<Rightarrow> bool" where
  "wf_Evaluation numVars x \<longleftrightarrow> length (derivatives x) = numVars"

text \<open>
  The default constructor of \<^verbatim>\<open>Evaluation\<close> (\<^verbatim>\<open>Evaluation result;\<close>) leaves the scalar
  field and the \<^verbatim>\<open>numVars\<close> derivative slots indeterminate. Their initial content is
  an argument \<open>mem\<close> of every function that constructs a result: a scalar for the
  scalar field and a scalar for each slot index. A result is determined only where the
  function writes it.
\<close>

type_synonym 'a storage = "'a \<times> (nat \<Rightarrow> 'a)"

definition Evaluation_default :: "'a storage \<Rightarrow> nat \<Rightarrow> 'a Evaluation" where
  "Evaluation_default mem numVars = \<lparr>val = fst mem, derivatives = map (snd mem) [0..<numVars]\<rparr>"

text \<open>
  Modelled from the spec: \<^verbatim>\<open>Evaluation::createConstant\<close>, the AD value of a constant
  (all derivatives zero).
\<close>

definition createConstant :: "nat \<Rightarrow> 'a::zero \<Rightarrow> 'a Evaluation" where
  "createConstant numVars c = \<lparr>val = c, derivatives = replicate numVars 0\<rparr>"

text \<open>
  Modelled from the spec: \<^verbatim>\<open>Evaluation::operator==\<close> against a plain scalar, which
  compares the scalar field only (the zero-base test of \<^verbatim>\<open>pow\<close> is on the base's
  scalar value).
\<close>

definition eq_Scalar :: "'a Evaluation \<Rightarrow> 'a \<Rightarrow> bool" where
  "eq_Scalar x c \<longleftrightarrow> val x = c"

text \<open>
  Modelled from the spec: \<^verbatim>\<open>Evaluation::operator=\<close> from a plain scalar, which sets
  the scalar field and clears every derivative (\<^verbatim>\<open>result = 0.0\<close> is the all-zero AD
  value).
\<close>

definition assign_Scalar :: "'a::zero Evaluation \<Rightarrow> 'a \<Rightarrow> 'a Evaluation" where
  "assign_Scalar result c = \<lparr>val = c, derivatives = replicate (length (derivatives result)) 0\<rparr>"

subsection \<open>Loops and the standard algorithms\<close>

text \<open>
  \<^verbatim>\<open>for (unsigned curVarIdx = i; curVarIdx < size; ++curVarIdx)
      result.derivatives[curVarIdx] = body(curVarIdx);\<close>
\<close>

function for_curVarIdx :: "nat \<Rightarrow> nat \<Rightarrow> (nat \<Rightarrow> 'a) \<Rightarrow> 'a list \<Rightarrow> 'a list" where
  "for_curVarIdx curVarIdx sz body ds =
     (if curVarIdx < sz
      then for_curVarIdx (Suc curVarIdx) sz body (ds[curVarIdx := body curVarIdx])
      else ds)"
  by pat_completeness auto
termination
  by (relation "measure (\<lambda>(curVarIdx, sz, body, ds). sz - curVarIdx)") auto

declare for_curVarIdx.simps [simp del]

text \<open>
  \<^verbatim>\<open>std::copy(src.begin(), src.end(), dst.begin())\<close> overwrites the first
  \<open>length src\<close> slots of \<open>dst\<close>; \<^verbatim>\<open>std::fill(dst.begin(), dst.end(), v)\<close> overwrites
  every slot of \<open>dst\<close>.
\<close>

definition std_copy :: "'a list \<Rightarrow> 'a list \<Rightarrow> 'a list" where
  "std_copy src dst = take (length dst) src @ drop (length src) dst"

definition std_fill :: "'a list \<Rightarrow> 'a \<Rightarrow> 'a list" where
  "std_fill dst v = map (\<lambda>_. v) dst"

subsection \<open>abs, min, max\<close>

definition abs_Eval ::
  "real storage \<Rightarrow> nat
     \<Rightarrow> real Evaluation \<Rightarrow> real Evaluation" where
  "abs_Eval mem numVars x =
     (let result = Evaluation_default mem numVars in
      if val x < 0 then
        result\<lparr>val := - val x,
               derivatives := for_curVarIdx 0 (length (derivatives result))
                                (\<lambda>curVarIdx. - (derivatives x ! curVarIdx)) (derivatives result)\<rparr>
      else
        result\<lparr>val := val x,
               derivatives := for_curVarIdx 0 (length (derivatives result))
                                (\<lambda>curVarIdx. derivatives x ! curVarIdx) (derivatives result)\<rparr>)"

definition min_Eval_Eval ::
  "real storage \<Rightarrow> nat \<Rightarrow> real Evaluation
     \<Rightarrow> real Evaluation \<Rightarrow> real Evaluation" where
  "min_Eval_Eval mem numVars x1 x2 =
     (let result = Evaluation_default mem numVars in
      if val x1 < val x2 then
        result\<lparr>val := val x1, derivatives := std_copy (derivatives x1) (derivatives result)\<rparr>
      else
        result\<lparr>val := val x2, derivatives := std_copy (derivatives x2) (derivatives result)\<rparr>)"

definition min_Scalar_Eval ::
  "real storage \<Rightarrow> nat \<Rightarrow> real
     \<Rightarrow> real Evaluation \<Rightarrow> real Evaluation" where
  "min_Scalar_Eval mem numVars x1 x2 =
     (let result = Evaluation_default mem numVars in
      if x1 < val x2 then
        result\<lparr>val := x1, derivatives := std_fill (derivatives result) 0\<rparr>
      else
        result\<lparr>val := val x2, derivatives := std_copy (derivatives x2) (derivatives result)\<rparr>)"

definition min_Eval_Scalar ::
  "real storage \<Rightarrow> nat \<Rightarrow> real Evaluation
     \<Rightarrow> real \<Rightarrow> real Evaluation" where
  "min_Eval_Scalar mem numVars x1 x2 = min_Scalar_Eval mem numVars x2 x1"

definition max_Eval_Eval ::
  "real storage \<Rightarrow> nat \<Rightarrow> real Evaluation
     \<Rightarrow> real Evaluation \<Rightarrow> real Evaluation" where
  "max_Eval_Eval mem numVars x1 x2 =
     (let result = Evaluation_default mem numVars in
      if val x1 > val x2 then
        result\<lparr>val := val x1, derivatives := std_copy (derivatives x1) (derivatives result)\<rparr>
      else
        result\<lparr>val := val x2, derivatives := std_copy (derivatives x2) (derivatives result)\<rparr>)"

definition max_Scalar_Eval ::
  "real storage \<Rightarrow> nat \<Rightarrow> real
     \<Rightarrow> real Evaluation \<Rightarrow> real Evaluation" where
  "max_Scalar_Eval mem numVars x1 x2 =
     (let result = Evaluation_default mem numVars in
      if x1 > val x2 then
        result\<lparr>val := x1, derivatives := std_fill (derivatives result) 0\<rparr>
      else
        result\<lparr>val := val x2, derivatives := std_copy (derivatives x2) (derivatives result)\<rparr>)"

definition max_Eval_Scalar ::
  "real storage \<Rightarrow> nat \<Rightarrow> real Evaluation
     \<Rightarrow> real \<Rightarrow> real Evaluation" where
  "max_Eval_Scalar mem numVars x1 x2 = max_Scalar_Eval mem numVars x2 x1"

subsection \<open>The scalar toolbox\<close>

text \<open>
  \<^verbatim>\<open>MathToolbox<ValueType>\<close> (\<^verbatim>\<open>opm/material/common/MathToolbox.hpp\<close>) is not among
  the sources: the scalar functions the AD functions call are a parameter.
\<close>

record 'a MathToolbox =
  tb_sin :: "'a \<Rightarrow> 'a"
  tb_cos :: "'a \<Rightarrow> 'a"
  tb_tan :: "'a \<Rightarrow> 'a"
  tb_asin :: "'a \<Rightarrow> 'a"
  tb_acos :: "'a \<Rightarrow> 'a"
  tb_atan :: "'a \<Rightarrow> 'a"
  tb_atan2 :: "'a \<Rightarrow> 'a \<Rightarrow> 'a"
  tb_sqrt :: "'a \<Rightarrow> 'a"
  tb_exp :: "'a \<Rightarrow> 'a"
  tb_log :: "'a \<Rightarrow> 'a"
  tb_pow :: "'a \<Rightarrow> 'a \<Rightarrow> 'a"
  tb_isSame :: "'a \<Rightarrow> 'a \<Rightarrow> real \<Rightarrow> bool"

text \<open>
  Modelled from the spec: the scalar backend with the standard real-analysis meaning of
  each function, and \<^verbatim>\<open>isSame\<close> as equality within the tolerance. It instantiates the
  parameter at concrete inputs and in the statements about the real-analysis backend.
\<close>

definition atan2_real :: "real \<Rightarrow> real \<Rightarrow> real" where
  "atan2_real y x =
     (if 0 < x then arctan (y / x)
      else if x < 0 then (if 0 \<le> y then arctan (y / x) + pi else arctan (y / x) - pi)
      else if 0 < y then pi / 2
      else if y < 0 then - pi / 2
      else 0)"

definition real_toolbox :: "real MathToolbox" where
  "real_toolbox =
     \<lparr>tb_sin = sin, tb_cos = cos, tb_tan = tan,
      tb_asin = arcsin, tb_acos = arccos, tb_atan = arctan,
      tb_atan2 = atan2_real,
      tb_sqrt = sqrt, tb_exp = exp, tb_log = ln,
      tb_pow = (\<lambda>b e. b powr e),
      tb_isSame = (\<lambda>a b tolerance. \<bar>a - b\<bar> \<le> tolerance)\<rparr>"

subsection \<open>Trigonometric functions\<close>

definition tan_Eval ::
  "real MathToolbox \<Rightarrow> real storage \<Rightarrow> nat
     \<Rightarrow> real Evaluation \<Rightarrow> real Evaluation" where
  "tan_Eval ValueTypeToolbox mem numVars x =
     (let result = Evaluation_default mem numVars;
          tmp = tb_tan ValueTypeToolbox (val x);
          result = result\<lparr>val := tmp\<rparr>;
          df_dx = 1 + tmp * tmp
      in result\<lparr>derivatives := for_curVarIdx 0 (length (derivatives result))
                   (\<lambda>curVarIdx. df_dx * derivatives x ! curVarIdx) (derivatives result)\<rparr>)"

definition atan_Eval ::
  "real MathToolbox \<Rightarrow> real storage \<Rightarrow> nat
     \<Rightarrow> real Evaluation \<Rightarrow> real Evaluation" where
  "atan_Eval ValueTypeToolbox mem numVars x =
     (let result = Evaluation_default mem numVars;
          result = result\<lparr>val := tb_atan ValueTypeToolbox (val x)\<rparr>;
          df_dx = 1 / (1 + val x * val x)
      in result\<lparr>derivatives := for_curVarIdx 0 (length (derivatives result))
                   (\<lambda>curVarIdx. df_dx * derivatives x ! curVarIdx) (derivatives result)\<rparr>)"

definition atan2_Eval ::
  "'a::{one,plus,minus,times,inverse} MathToolbox \<Rightarrow> 'a storage \<Rightarrow> nat
     \<Rightarrow> 'a Evaluation \<Rightarrow> 'a Evaluation \<Rightarrow> 'a Evaluation" where
  "atan2_Eval ValueTypeToolbox mem numVars x y =
     (let result = Evaluation_default mem numVars;
          result = result\<lparr>val := tb_atan2 ValueTypeToolbox (val x) (val y)\<rparr>;
          alpha = 1 / (1 + (val x * val x) / (val y * val y))
      in result\<lparr>derivatives := for_curVarIdx 0 (length (derivatives result))
                   (\<lambda>curVarIdx.
                      alpha
                      / (val y * val y)
                      * (derivatives x ! curVarIdx * val y - val x * derivatives y ! curVarIdx))
                   (derivatives result)\<rparr>)"

definition sin_Eval ::
  "real MathToolbox \<Rightarrow> real storage \<Rightarrow> nat
     \<Rightarrow> real Evaluation \<Rightarrow> real Evaluation" where
  "sin_Eval ValueTypeToolbox mem numVars x =
     (let result = Evaluation_default mem numVars;
          result = result\<lparr>val := tb_sin ValueTypeToolbox (val x)\<rparr>;
          df_dx = tb_cos ValueTypeToolbox (val x)
      in result\<lparr>derivatives := for_curVarIdx 0 (length (derivatives result))
                   (\<lambda>curVarIdx. df_dx * derivatives x ! curVarIdx) (derivatives result)\<rparr>)"

definition asin_Eval ::
  "real MathToolbox \<Rightarrow> real storage \<Rightarrow> nat
     \<Rightarrow> real Evaluation \<Rightarrow> real Evaluation" where
  "asin_Eval ValueTypeToolbox mem numVars x =
     (let result = Evaluation_default mem numVars;
          result = result\<lparr>val := tb_asin ValueTypeToolbox (val x)\<rparr>;
          df_dx = 1 / tb_sqrt ValueTypeToolbox (1 - val x * val x)
      in result\<lparr>derivatives := for_curVarIdx 0 (length (derivatives result))
                   (\<lambda>curVarIdx. df_dx * derivatives x ! curVarIdx) (derivatives result)\<rparr>)"

definition cos_Eval ::
  "real MathToolbox \<Rightarrow> real storage \<Rightarrow> nat
     \<Rightarrow> real Evaluation \<Rightarrow> real Evaluation" where
  "cos_Eval ValueTypeToolbox mem numVars x =
     (let result = Evaluation_default mem numVars;
          result = result\<lparr>val := tb_cos ValueTypeToolbox (val x)\<rparr>;
          df_dx = - tb_sin ValueTypeToolbox (val x)
      in result\<lparr>derivatives := for_curVarIdx 0 (length (derivatives result))
                   (\<lambda>curVarIdx. df_dx * derivatives x ! curVarIdx) (derivatives result)\<rparr>)"

definition acos_Eval ::
  "real MathToolbox \<Rightarrow> real storage \<Rightarrow> nat
     \<Rightarrow> real Evaluation \<Rightarrow> real Evaluation" where
  "acos_Eval ValueTypeToolbox mem numVars x =
     (let result = Evaluation_default mem numVars;
          result = result\<lparr>val := tb_acos ValueTypeToolbox (val x)\<rparr>;
          df_dx = (- 1) / tb_sqrt ValueTypeToolbox (1 - val x * val x)
      in result\<lparr>derivatives := for_curVarIdx 0 (length (derivatives result))
                   (\<lambda>curVarIdx. df_dx * derivatives x ! curVarIdx) (derivatives result)\<rparr>)"

subsection \<open>sqrt, exp, pow, log\<close>

definition sqrt_Eval ::
  "real MathToolbox \<Rightarrow> real storage \<Rightarrow> nat
     \<Rightarrow> real Evaluation \<Rightarrow> real Evaluation" where
  "sqrt_Eval ValueTypeToolbox mem numVars x =
     (let result = Evaluation_default mem numVars;
          sqrt_x = tb_sqrt ValueTypeToolbox (val x);
          result = result\<lparr>val := sqrt_x\<rparr>;
          df_dx = 0.5 / sqrt_x
      in result\<lparr>derivatives := for_curVarIdx 0 (length (derivatives result))
                   (\<lambda>curVarIdx. df_dx * derivatives x ! curVarIdx) (derivatives result)\<rparr>)"

definition exp_Eval ::
  "real MathToolbox \<Rightarrow> real storage \<Rightarrow> nat
     \<Rightarrow> real Evaluation \<Rightarrow> real Evaluation" where
  "exp_Eval ValueTypeToolbox mem numVars x =
     (let result = Evaluation_default mem numVars;
          exp_x = tb_exp ValueTypeToolbox (val x);
          result = result\<lparr>val := exp_x\<rparr>;
          df_dx = exp_x
      in result\<lparr>derivatives := for_curVarIdx 0 (length (derivatives result))
                   (\<lambda>curVarIdx. df_dx * derivatives x ! curVarIdx) (derivatives result)\<rparr>)"

text \<open>Exponentiation of an arbitrary base with a fixed constant.\<close>

definition pow_Eval_Scalar ::
  "'a::{zero,times,inverse} MathToolbox \<Rightarrow> 'a storage \<Rightarrow> nat \<Rightarrow> 'a Evaluation
     \<Rightarrow> 'a \<Rightarrow> 'a Evaluation" where
  "pow_Eval_Scalar ValueTypeToolbox mem numVars base exp' =
     (let result = Evaluation_default mem numVars;
          pow_x = tb_pow ValueTypeToolbox (val base) exp';
          result = result\<lparr>val := pow_x\<rparr>
      in if eq_Scalar base 0 then assign_Scalar result 0
         else
           let df_dx = pow_x / val base * exp'
           in result\<lparr>derivatives := for_curVarIdx 0 (length (derivatives result))
                        (\<lambda>curVarIdx. df_dx * derivatives base ! curVarIdx)
                        (derivatives result)\<rparr>)"

text \<open>Exponentiation of a constant base with an arbitrary exponent.\<close>

definition pow_Scalar_Eval ::
  "'a::{zero,times} MathToolbox \<Rightarrow> 'a storage \<Rightarrow> nat \<Rightarrow> 'a
     \<Rightarrow> 'a Evaluation \<Rightarrow> 'a Evaluation" where
  "pow_Scalar_Eval ValueTypeToolbox mem numVars base exp' =
     (let result = Evaluation_default mem numVars
      in if base = 0 then assign_Scalar result 0
         else
           let lnBase = tb_log ValueTypeToolbox base;
               result = result\<lparr>val := tb_exp ValueTypeToolbox (lnBase * val exp')\<rparr>;
               df_dx = lnBase * val result
           in result\<lparr>derivatives := for_curVarIdx 0 (length (derivatives result))
                        (\<lambda>curVarIdx. df_dx * derivatives exp' ! curVarIdx)
                        (derivatives result)\<rparr>)"

text \<open>Both the base and the exponent are AD values.\<close>

definition pow_Eval_Eval ::
  "'a::{zero,plus,times,inverse} MathToolbox \<Rightarrow> 'a storage \<Rightarrow> nat \<Rightarrow> 'a Evaluation
     \<Rightarrow> 'a Evaluation \<Rightarrow> 'a Evaluation" where
  "pow_Eval_Eval ValueTypeToolbox mem numVars base exp' =
     (let result = Evaluation_default mem numVars
      in if eq_Scalar base 0 then assign_Scalar result 0
         else
           let valuePow = tb_pow ValueTypeToolbox (val base) (val exp');
               result = result\<lparr>val := valuePow\<rparr>;
               f = val base;
               g = val exp';
               logF = tb_log ValueTypeToolbox f
           in result\<lparr>derivatives := for_curVarIdx 0 (length (derivatives result))
                        (\<lambda>curVarIdx.
                           let fPrime = derivatives base ! curVarIdx;
                               gPrime = derivatives exp' ! curVarIdx
                           in (g * fPrime / f + logF * gPrime) * valuePow)
                        (derivatives result)\<rparr>)"

definition log_Eval ::
  "real MathToolbox \<Rightarrow> real storage \<Rightarrow> nat
     \<Rightarrow> real Evaluation \<Rightarrow> real Evaluation" where
  "log_Eval ValueTypeToolbox mem numVars x =
     (let result = Evaluation_default mem numVars;
          result = result\<lparr>val := tb_log ValueTypeToolbox (val x)\<rparr>;
          df_dx = 1 / val x
      in result\<lparr>derivatives := for_curVarIdx 0 (length (derivatives result))
                   (\<lambda>curVarIdx. df_dx * derivatives x ! curVarIdx) (derivatives result)\<rparr>)"

subsection \<open>The toolbox of the AD value: isSame\<close>

text \<open>
  \<^verbatim>\<open>for (unsigned curVarIdx = i; curVarIdx < numVars; ++curVarIdx)
      if (!ValueTypeToolbox::isSame(a.derivatives[curVarIdx], b.derivatives[curVarIdx], tolerance))
          return false;
  return true;\<close>
\<close>

function isSame_derivatives ::
  "real MathToolbox \<Rightarrow> nat \<Rightarrow> nat \<Rightarrow> real Evaluation \<Rightarrow> real Evaluation \<Rightarrow> real \<Rightarrow> bool" where
  "isSame_derivatives ValueTypeToolbox curVarIdx numVars a b tolerance =
     (if curVarIdx < numVars then
        if \<not> tb_isSame ValueTypeToolbox (derivatives a ! curVarIdx) (derivatives b ! curVarIdx) tolerance
        then False
        else isSame_derivatives ValueTypeToolbox (Suc curVarIdx) numVars a b tolerance
      else True)"
  by pat_completeness auto
termination
  by (relation "measure (\<lambda>(tb, curVarIdx, numVars, a, b, tolerance). numVars - curVarIdx)") auto

declare isSame_derivatives.simps [simp del]

definition isSame ::
  "real MathToolbox \<Rightarrow> nat \<Rightarrow> real Evaluation \<Rightarrow> real Evaluation
     \<Rightarrow> real \<Rightarrow> bool" where
  "isSame ValueTypeToolbox numVars a b tolerance =
     (if \<not> tb_isSame ValueTypeToolbox (val a) (val b) tolerance then False
      else isSame_derivatives ValueTypeToolbox 0 numVars a b tolerance)"

subsection \<open>The chain rule as the specification words it\<close>

text \<open>
  For a unary function \<open>f\<close> with scalar derivative \<open>f'\<close> and an operand
  \<open>x = (v, d[0..n))\<close>, the result is \<open>(f v, f' v * d[0..n))\<close>.
\<close>

definition chain_rule ::
  "(real \<Rightarrow> real) \<Rightarrow> (real \<Rightarrow> real)
     \<Rightarrow> real Evaluation \<Rightarrow> real Evaluation" where
  "chain_rule f f' x = \<lparr>val = f (val x), derivatives = map (\<lambda>d. f' (val x) * d) (derivatives x)\<rparr>"

subsection \<open>The atan2 derivative as the specification words it\<close>

text \<open>
  For every variable index \<open>i\<close>, the derivative is
  \<open>alpha / y.value\<^sup>2 * (x.derivatives[i] * y.value - x.value * y.derivatives[i])\<close> with
  \<open>alpha = 1 / (1 + (x.value / y.value)\<^sup>2)\<close>.
\<close>

definition atan2_claimed ::
  "'a::{plus,minus,inverse,power} Evaluation \<Rightarrow> 'a Evaluation \<Rightarrow> nat \<Rightarrow> 'a" where
  "atan2_claimed x y i =
     (let alpha = 1 / (1 + (val x / val y)\<^sup>2)
      in alpha / (val y)\<^sup>2 * (derivatives x ! i * val y - val x * derivatives y ! i))"

subsection \<open>A scalar type with overflow and the IEEE special values\<close>

text \<open>
  The values of IEEE-754 binary64 with the finite ones taken as the reals they denote.
  A finite result is not rounded, except that one whose magnitude reaches
  \<open>2\<^sup>1\<^sup>0\<^sup>2\<^sup>4 - 2\<^sup>9\<^sup>7\<^sup>0\<close> (where round-to-nearest leaves the finite range) is the infinity
  of its sign. Infinities and NaN combine by the rules of the standard. Underflow and
  the sign of zero are not modelled: the zero is the positive zero.
\<close>

datatype ieee = Fin real | PInf | NInf | NaN

definition round_overflow :: "real \<Rightarrow> ieee" where
  "round_overflow r =
     (if 2 ^ 1024 - 2 ^ 970 \<le> r then PInf
      else if r \<le> - (2 ^ 1024 - 2 ^ 970) then NInf
      else Fin r)"

fun ieee_uminus :: "ieee \<Rightarrow> ieee" where
  "ieee_uminus (Fin a) = Fin (- a)"
| "ieee_uminus PInf = NInf"
| "ieee_uminus NInf = PInf"
| "ieee_uminus NaN = NaN"

fun ieee_plus :: "ieee \<Rightarrow> ieee \<Rightarrow> ieee" where
  "ieee_plus NaN y = NaN"
| "ieee_plus x NaN = NaN"
| "ieee_plus PInf NInf = NaN"
| "ieee_plus NInf PInf = NaN"
| "ieee_plus PInf y = PInf"
| "ieee_plus x PInf = PInf"
| "ieee_plus NInf y = NInf"
| "ieee_plus x NInf = NInf"
| "ieee_plus (Fin a) (Fin b) = round_overflow (a + b)"

fun ieee_times :: "ieee \<Rightarrow> ieee \<Rightarrow> ieee" where
  "ieee_times NaN y = NaN"
| "ieee_times x NaN = NaN"
| "ieee_times (Fin a) (Fin b) = round_overflow (a * b)"
| "ieee_times (Fin a) PInf = (if a = 0 then NaN else if 0 < a then PInf else NInf)"
| "ieee_times (Fin a) NInf = (if a = 0 then NaN else if 0 < a then NInf else PInf)"
| "ieee_times PInf (Fin b) = (if b = 0 then NaN else if 0 < b then PInf else NInf)"
| "ieee_times NInf (Fin b) = (if b = 0 then NaN else if 0 < b then NInf else PInf)"
| "ieee_times PInf PInf = PInf"
| "ieee_times PInf NInf = NInf"
| "ieee_times NInf PInf = NInf"
| "ieee_times NInf NInf = PInf"

fun ieee_divide :: "ieee \<Rightarrow> ieee \<Rightarrow> ieee" where
  "ieee_divide NaN y = NaN"
| "ieee_divide x NaN = NaN"
| "ieee_divide (Fin a) (Fin b) =
     (if b = 0 then (if a = 0 then NaN else if 0 < a then PInf else NInf)
      else round_overflow (a / b))"
| "ieee_divide (Fin a) PInf = Fin 0"
| "ieee_divide (Fin a) NInf = Fin 0"
| "ieee_divide PInf (Fin b) = (if 0 \<le> b then PInf else NInf)"
| "ieee_divide NInf (Fin b) = (if 0 \<le> b then NInf else PInf)"
| "ieee_divide x y = NaN"

instantiation ieee :: "{zero, one, plus, uminus, minus, times, inverse}"
begin

definition zero_ieee :: ieee where
  "zero_ieee = Fin 0"

definition one_ieee :: ieee where
  "one_ieee = Fin 1"

definition plus_ieee :: "ieee \<Rightarrow> ieee \<Rightarrow> ieee" where
  "plus_ieee = ieee_plus"

definition uminus_ieee :: "ieee \<Rightarrow> ieee" where
  "uminus_ieee = ieee_uminus"

definition minus_ieee :: "ieee \<Rightarrow> ieee \<Rightarrow> ieee" where
  "minus_ieee x y = ieee_plus x (ieee_uminus y)"

definition times_ieee :: "ieee \<Rightarrow> ieee \<Rightarrow> ieee" where
  "times_ieee = ieee_times"

definition divide_ieee :: "ieee \<Rightarrow> ieee \<Rightarrow> ieee" where
  "divide_ieee = ieee_divide"

definition inverse_ieee :: "ieee \<Rightarrow> ieee" where
  "inverse_ieee x = ieee_divide (Fin 1) x"

instance ..

end

instance ieee :: power ..

text \<open>
  A backend on \<^typ>\<open>ieee\<close> that answers NaN, for evaluations whose result does not
  depend on the backend: the derivative components of \<^verbatim>\<open>atan2\<close>, and \<^verbatim>\<open>pow\<close> at a zero
  base.
\<close>

definition ieee_nan_toolbox :: "ieee MathToolbox" where
  "ieee_nan_toolbox =
     \<lparr>tb_sin = (\<lambda>_. NaN), tb_cos = (\<lambda>_. NaN), tb_tan = (\<lambda>_. NaN),
      tb_asin = (\<lambda>_. NaN), tb_acos = (\<lambda>_. NaN), tb_atan = (\<lambda>_. NaN),
      tb_atan2 = (\<lambda>_ _. NaN),
      tb_sqrt = (\<lambda>_. NaN), tb_exp = (\<lambda>_. NaN), tb_log = (\<lambda>_. NaN),
      tb_pow = (\<lambda>_ _. NaN),
      tb_isSame = (\<lambda>_ _ _. False)\<rparr>"

section \<open>Properties\<close>

subsection \<open>The loop and the standard algorithms\<close>

lemma for_curVarIdx_from:
  "i \<le> sz \<Longrightarrow> length ds = sz \<Longrightarrow>
   for_curVarIdx i sz body ds = take i ds @ map body [i..<sz]"
proof (induction i sz body ds rule: for_curVarIdx.induct)
  case (1 i sz body ds)
  show ?case
  proof (cases "i < sz")
    case True
    have "for_curVarIdx i sz body ds = for_curVarIdx (Suc i) sz body (ds[i := body i])"
      using True by (subst for_curVarIdx.simps) simp
    also have "\<dots> = take (Suc i) (ds[i := body i]) @ map body [Suc i..<sz]"
      using "1.IH" [OF True] True "1.prems" by simp
    also have "take (Suc i) (ds[i := body i]) = take i ds @ [body i]"
      using True "1.prems" by (simp add: take_Suc_conv_app_nth)
    finally show ?thesis
      using True by (simp add: upt_conv_Cons)
  next
    case False
    with "1.prems" have "i = sz" by simp
    then show ?thesis
      using "1.prems" by (subst for_curVarIdx.simps) simp
  qed
qed

lemma for_curVarIdx_all:
  "length ds = sz \<Longrightarrow> for_curVarIdx 0 sz body ds = map body [0..<sz]"
  using for_curVarIdx_from [of 0 sz ds body] by simp

lemma std_copy_all: "length src = length dst \<Longrightarrow> std_copy src dst = src"
  by (simp add: std_copy_def)

lemma std_fill_all: "std_fill dst v = replicate (length dst) v"
  by (simp add: std_fill_def map_replicate_const)

lemma length_default [simp]: "length (derivatives (Evaluation_default mem numVars)) = numVars"
  by (simp add: Evaluation_default_def)

lemma wf_default [simp]: "wf_Evaluation numVars (Evaluation_default mem numVars)"
  by (simp add: wf_Evaluation_def)

subsection \<open>abs\<close>

lemma abs_Eval_unfold:
  "abs_Eval mem numVars x =
     \<lparr>val = (if val x < 0 then - val x else val x),
      derivatives = map (\<lambda>i. if val x < 0 then - (derivatives x ! i) else derivatives x ! i)
                      [0..<numVars]\<rparr>"
  by (simp add: abs_Eval_def Let_def for_curVarIdx_all Evaluation_default_def)

lemma abs_Eval_wf:
  "wf_Evaluation numVars x \<Longrightarrow>
   abs_Eval mem numVars x =
     (if val x < 0 then \<lparr>val = - val x, derivatives = map uminus (derivatives x)\<rparr> else x)"
  by (auto simp: abs_Eval_unfold wf_Evaluation_def map_nth intro!: nth_equalityI)

lemma abs_Eval_nonneg: "\<not> val (abs_Eval mem numVars x) < 0"
  by (simp add: abs_Eval_unfold)

lemma abs_Eval_length: "wf_Evaluation numVars (abs_Eval mem numVars x)"
  by (simp add: abs_Eval_unfold wf_Evaluation_def)

lemma abs_Eval_mem: "abs_Eval mem numVars x = abs_Eval mem' numVars x"
  by (simp add: abs_Eval_unfold)

text \<open>
  C10. \<^verbatim>\<open>abs\<close> is idempotent: for every AD value \<open>x\<close>, \<open>abs (abs x)\<close> equals
  \<open>abs x\<close> in the scalar field and in every derivative component, since the scalar field
  of \<open>abs x\<close> is never below zero and the second application copies its operand. The
  indeterminate initial contents of the three results play no part.
\<close>

theorem abs_Eval_idempotent:
  "abs_Eval mem numVars (abs_Eval mem' numVars x) = abs_Eval mem'' numVars x"
proof -
  have "\<not> val (abs_Eval mem' numVars x) < 0"
    by (rule abs_Eval_nonneg)
  moreover have "wf_Evaluation numVars (abs_Eval mem' numVars x)"
    by (rule abs_Eval_length)
  ultimately have "abs_Eval mem numVars (abs_Eval mem' numVars x) = abs_Eval mem' numVars x"
    using abs_Eval_wf [of numVars "abs_Eval mem' numVars x" mem] by simp
  then show ?thesis
    using abs_Eval_mem [of mem' numVars x mem''] by simp
qed

theorem abs_Eval_idempotent_witness:
  "abs_Eval (99, \<lambda>_. 99) 2 (abs_Eval (98, \<lambda>_. 98) 2 \<lparr>val = - 3, derivatives = [2, - 7]\<rparr>)
     = \<lparr>val = 3, derivatives = [- 2, 7]\<rparr>"
proof -
  have "abs_Eval (97, \<lambda>_. 97) 2 \<lparr>val = - 3, derivatives = [2, - 7]\<rparr> = \<lparr>val = 3, derivatives = [- 2, 7]\<rparr>"
    by (simp add: abs_Eval_wf wf_Evaluation_def)
  then show ?thesis
    using abs_Eval_idempotent [of "(99, \<lambda>_. 99)" 2 "(98, \<lambda>_. 98)"
        "\<lparr>val = - 3, derivatives = [2, - 7]\<rparr>" "(97, \<lambda>_. 97)"]
    by simp
qed

subsection \<open>min and max\<close>

lemma min_Eval_Eval_wf:
  "wf_Evaluation numVars x1 \<Longrightarrow> wf_Evaluation numVars x2 \<Longrightarrow>
   min_Eval_Eval mem numVars x1 x2 = (if val x1 < val x2 then x1 else x2)"
  by (simp add: min_Eval_Eval_def Let_def wf_Evaluation_def std_copy_all Evaluation_default_def)

lemma max_Eval_Eval_wf:
  "wf_Evaluation numVars x1 \<Longrightarrow> wf_Evaluation numVars x2 \<Longrightarrow>
   max_Eval_Eval mem numVars x1 x2 = (if val x1 > val x2 then x1 else x2)"
  by (simp add: max_Eval_Eval_def Let_def wf_Evaluation_def std_copy_all Evaluation_default_def)

lemma min_Scalar_Eval_wf:
  "wf_Evaluation numVars x2 \<Longrightarrow>
   min_Scalar_Eval mem numVars x1 x2 =
     (if x1 < val x2 then \<lparr>val = x1, derivatives = replicate numVars 0\<rparr> else x2)"
  by (simp add: min_Scalar_Eval_def Let_def wf_Evaluation_def std_copy_all std_fill_all
      Evaluation_default_def)

lemma max_Scalar_Eval_wf:
  "wf_Evaluation numVars x2 \<Longrightarrow>
   max_Scalar_Eval mem numVars x1 x2 =
     (if x1 > val x2 then \<lparr>val = x1, derivatives = replicate numVars 0\<rparr> else x2)"
  by (simp add: max_Scalar_Eval_def Let_def wf_Evaluation_def std_copy_all std_fill_all
      Evaluation_default_def)

text \<open>
  C3. For AD values \<open>x1\<close>, \<open>x2\<close> of \<open>numVars\<close> variables, \<^verbatim>\<open>min(x1, x2)\<close> is \<open>x1\<close>
  (scalar field and the whole derivative vector) when \<open>val x1 < val x2\<close> and is \<open>x2\<close>
  otherwise, the tie included; \<^verbatim>\<open>max(x1, x2)\<close> is \<open>x1\<close> when \<open>val x1 > val x2\<close> and
  \<open>x2\<close> otherwise, the tie included.
\<close>

theorem min_max_Eval_Eval_selects:
  assumes "wf_Evaluation numVars x1" and "wf_Evaluation numVars x2"
  shows "(val x1 < val x2 \<longrightarrow>
            val (min_Eval_Eval mem numVars x1 x2) = val x1 \<and>
            derivatives (min_Eval_Eval mem numVars x1 x2) = derivatives x1) \<and>
         (\<not> val x1 < val x2 \<longrightarrow>
            val (min_Eval_Eval mem numVars x1 x2) = val x2 \<and>
            derivatives (min_Eval_Eval mem numVars x1 x2) = derivatives x2) \<and>
         (val x1 > val x2 \<longrightarrow>
            val (max_Eval_Eval mem numVars x1 x2) = val x1 \<and>
            derivatives (max_Eval_Eval mem numVars x1 x2) = derivatives x1) \<and>
         (\<not> val x1 > val x2 \<longrightarrow>
            val (max_Eval_Eval mem numVars x1 x2) = val x2 \<and>
            derivatives (max_Eval_Eval mem numVars x1 x2) = derivatives x2)"
  using assms by (simp add: min_Eval_Eval_wf max_Eval_Eval_wf)

theorem min_max_Eval_Eval_selects_witness:
  "min_Eval_Eval (99, \<lambda>_. 99) 2 \<lparr>val = 3, derivatives = [2, 7]\<rparr> \<lparr>val = 3, derivatives = [4, 5]\<rparr>
     = \<lparr>val = 3, derivatives = [4, 5]\<rparr> \<and>
   max_Eval_Eval (99, \<lambda>_. 99) 2 \<lparr>val = 3, derivatives = [2, 7]\<rparr> \<lparr>val = 3, derivatives = [4, 5]\<rparr>
     = \<lparr>val = 3, derivatives = [4, 5]\<rparr> \<and>
   min_Eval_Eval (99, \<lambda>_. 99) 2 \<lparr>val = 1, derivatives = [2, 7]\<rparr> \<lparr>val = 3, derivatives = [4, 5]\<rparr>
     = \<lparr>val = 1, derivatives = [2, 7]\<rparr> \<and>
   max_Eval_Eval (99, \<lambda>_. 99) 2 \<lparr>val = 5, derivatives = [2, 7]\<rparr> \<lparr>val = 3, derivatives = [4, 5]\<rparr>
     = \<lparr>val = 5, derivatives = [2, 7]\<rparr>"
  using
    min_max_Eval_Eval_selects [of 2 "\<lparr>val = 3, derivatives = [2, 7]\<rparr>"
        "\<lparr>val = 3, derivatives = [4, 5]\<rparr>" "(99, \<lambda>_. 99)"]
    min_max_Eval_Eval_selects [of 2 "\<lparr>val = 1, derivatives = [2, 7]\<rparr>"
        "\<lparr>val = 3, derivatives = [4, 5]\<rparr>" "(99, \<lambda>_. 99)"]
    min_max_Eval_Eval_selects [of 2 "\<lparr>val = 5, derivatives = [2, 7]\<rparr>"
        "\<lparr>val = 3, derivatives = [4, 5]\<rparr>" "(99, \<lambda>_. 99)"]
  by (simp add: wf_Evaluation_def Evaluation.equality)

text \<open>
  C4. For a plain scalar \<open>s\<close> and an AD value \<open>x\<close> of \<open>numVars\<close> variables,
  \<^verbatim>\<open>min(s, x)\<close> has scalar field \<open>s\<close> and \<open>numVars\<close> zero derivatives when \<open>s < val x\<close>,
  and is \<open>x\<close> unchanged otherwise; \<^verbatim>\<open>max(s, x)\<close> likewise with \<open>s > val x\<close>. The zeros
  are written by the function, whatever the initial content \<open>mem\<close> of its result.
\<close>

theorem min_max_Scalar_Eval_selects:
  assumes "wf_Evaluation numVars x"
  shows "min_Scalar_Eval mem numVars s x =
           (if s < val x then \<lparr>val = s, derivatives = replicate numVars 0\<rparr>
            else \<lparr>val = val x, derivatives = derivatives x\<rparr>) \<and>
         max_Scalar_Eval mem numVars s x =
           (if s > val x then \<lparr>val = s, derivatives = replicate numVars 0\<rparr>
            else \<lparr>val = val x, derivatives = derivatives x\<rparr>)"
  using assms by (simp add: min_Scalar_Eval_wf max_Scalar_Eval_wf)

theorem min_max_Scalar_Eval_selects_witness:
  "min_Scalar_Eval (99, \<lambda>_. 99) 2 5 \<lparr>val = 3, derivatives = [2, 7]\<rparr>
     = \<lparr>val = 3, derivatives = [2, 7]\<rparr> \<and>
   min_Scalar_Eval (99, \<lambda>_. 99) 2 1 \<lparr>val = 3, derivatives = [2, 7]\<rparr>
     = \<lparr>val = 1, derivatives = [0, 0]\<rparr> \<and>
   max_Scalar_Eval (99, \<lambda>_. 99) 2 5 \<lparr>val = 3, derivatives = [2, 7]\<rparr>
     = \<lparr>val = 5, derivatives = [0, 0]\<rparr> \<and>
   max_Scalar_Eval (99, \<lambda>_. 99) 2 1 \<lparr>val = 3, derivatives = [2, 7]\<rparr>
     = \<lparr>val = 3, derivatives = [2, 7]\<rparr>"
  using
    min_max_Scalar_Eval_selects [of 2 "\<lparr>val = 3, derivatives = [2, 7]\<rparr>" "(99, \<lambda>_. 99)" 5]
    min_max_Scalar_Eval_selects [of 2 "\<lparr>val = 3, derivatives = [2, 7]\<rparr>" "(99, \<lambda>_. 99)" 1]
  by (simp add: wf_Evaluation_def numeral_2_eq_2)

text \<open>
  C8. For a plain scalar \<open>s\<close> and an AD value \<open>x\<close>, \<^verbatim>\<open>min(x, s)\<close> equals \<^verbatim>\<open>min(s, x)\<close>
  and \<^verbatim>\<open>max(x, s)\<close> equals \<^verbatim>\<open>max(s, x)\<close>, in the scalar field and in the derivative
  vector.
\<close>

theorem min_max_Eval_Scalar_symmetric:
  "val (min_Eval_Scalar mem numVars x s) = val (min_Scalar_Eval mem numVars s x) \<and>
   derivatives (min_Eval_Scalar mem numVars x s) = derivatives (min_Scalar_Eval mem numVars s x) \<and>
   val (max_Eval_Scalar mem numVars x s) = val (max_Scalar_Eval mem numVars s x) \<and>
   derivatives (max_Eval_Scalar mem numVars x s) = derivatives (max_Scalar_Eval mem numVars s x)"
  by (simp add: min_Eval_Scalar_def max_Eval_Scalar_def)

theorem min_max_Eval_Scalar_symmetric_witness:
  "min_Eval_Scalar (99, \<lambda>_. 99) 2 \<lparr>val = 3, derivatives = [2, 7]\<rparr> 1
     = \<lparr>val = 1, derivatives = [0, 0]\<rparr> \<and>
   max_Eval_Scalar (99, \<lambda>_. 99) 2 \<lparr>val = 3, derivatives = [2, 7]\<rparr> 1
     = \<lparr>val = 3, derivatives = [2, 7]\<rparr>"
  using min_max_Eval_Scalar_symmetric [of "(99, \<lambda>_. 99)" 2 "\<lparr>val = 3, derivatives = [2, 7]\<rparr>" 1]
  by (simp add: min_Scalar_Eval_wf max_Scalar_Eval_wf wf_Evaluation_def numeral_2_eq_2
      Evaluation.equality)

text \<open>
  C9. In the tie of the mixed overloads, \<open>s = val x\<close>, both \<^verbatim>\<open>min(s, x)\<close> and
  \<^verbatim>\<open>max(s, x)\<close> return the scalar field of \<open>x\<close> with the derivative vector of \<open>x\<close>
  (kept, not zeroed): the scalar operand wins only under strict comparison.
\<close>

theorem min_max_Scalar_Eval_tie:
  assumes "wf_Evaluation numVars x" and "s = val x"
  shows "val (min_Scalar_Eval mem numVars s x) = val x \<and>
         derivatives (min_Scalar_Eval mem numVars s x) = derivatives x \<and>
         val (max_Scalar_Eval mem numVars s x) = val x \<and>
         derivatives (max_Scalar_Eval mem numVars s x) = derivatives x"
  using assms by (simp add: min_Scalar_Eval_wf max_Scalar_Eval_wf)

theorem min_max_Scalar_Eval_tie_witness:
  "min_Scalar_Eval (99, \<lambda>_. 99) 2 3 \<lparr>val = 3, derivatives = [2, 7]\<rparr>
     = \<lparr>val = 3, derivatives = [2, 7]\<rparr> \<and>
   max_Scalar_Eval (99, \<lambda>_. 99) 2 3 \<lparr>val = 3, derivatives = [2, 7]\<rparr>
     = \<lparr>val = 3, derivatives = [2, 7]\<rparr>"
  using min_max_Scalar_Eval_tie [of 2 "\<lparr>val = 3, derivatives = [2, 7]\<rparr>" 3 "(99, \<lambda>_. 99)"]
  by (simp add: wf_Evaluation_def Evaluation.equality)

subsection \<open>Unary functions\<close>

lemma loop_map:
  "wf_Evaluation numVars x \<Longrightarrow>
   for_curVarIdx 0 numVars (\<lambda>curVarIdx. g (derivatives x ! curVarIdx)) (map (snd mem) [0..<numVars])
     = map g (derivatives x)"
  by (auto simp: for_curVarIdx_all wf_Evaluation_def intro!: nth_equalityI)

lemma sin_Eval_chain:
  assumes "wf_Evaluation numVars x"
  shows "sin_Eval tb mem numVars x = chain_rule (tb_sin tb) (tb_cos tb) x"
  using loop_map [OF assms, where mem = mem and g = "\<lambda>d. tb_cos tb (val x) * d"]
  by (simp add: sin_Eval_def Let_def chain_rule_def Evaluation_default_def)

lemma cos_Eval_chain:
  assumes "wf_Evaluation numVars x"
  shows "cos_Eval tb mem numVars x = chain_rule (tb_cos tb) (\<lambda>v. - tb_sin tb v) x"
  using loop_map [OF assms, where mem = mem and g = "\<lambda>d. - tb_sin tb (val x) * d"]
  by (simp add: cos_Eval_def Let_def chain_rule_def Evaluation_default_def)

lemma tan_Eval_chain:
  assumes "wf_Evaluation numVars x"
  shows "tan_Eval tb mem numVars x = chain_rule (tb_tan tb) (\<lambda>v. 1 + (tb_tan tb v)\<^sup>2) x"
  using loop_map [OF assms, where mem = mem and g = "\<lambda>d. (1 + tb_tan tb (val x) * tb_tan tb (val x)) * d"]
  by (simp add: tan_Eval_def Let_def chain_rule_def Evaluation_default_def power2_eq_square)

lemma asin_Eval_chain:
  assumes "wf_Evaluation numVars x"
  shows "asin_Eval tb mem numVars x = chain_rule (tb_asin tb) (\<lambda>v. 1 / tb_sqrt tb (1 - v\<^sup>2)) x"
  using loop_map [OF assms, where mem = mem and g = "\<lambda>d. 1 / tb_sqrt tb (1 - val x * val x) * d"]
  by (simp add: asin_Eval_def Let_def chain_rule_def Evaluation_default_def power2_eq_square)

lemma acos_Eval_chain:
  assumes "wf_Evaluation numVars x"
  shows "acos_Eval tb mem numVars x = chain_rule (tb_acos tb) (\<lambda>v. - 1 / tb_sqrt tb (1 - v\<^sup>2)) x"
  using loop_map [OF assms, where mem = mem and g = "\<lambda>d. (- 1) / tb_sqrt tb (1 - val x * val x) * d"]
  by (simp add: acos_Eval_def Let_def chain_rule_def Evaluation_default_def power2_eq_square)

lemma atan_Eval_chain:
  assumes "wf_Evaluation numVars x"
  shows "atan_Eval tb mem numVars x = chain_rule (tb_atan tb) (\<lambda>v. 1 / (1 + v\<^sup>2)) x"
  using loop_map [OF assms, where mem = mem and g = "\<lambda>d. 1 / (1 + val x * val x) * d"]
  by (simp add: atan_Eval_def Let_def chain_rule_def Evaluation_default_def power2_eq_square)

lemma exp_Eval_chain:
  assumes "wf_Evaluation numVars x"
  shows "exp_Eval tb mem numVars x = chain_rule (tb_exp tb) (tb_exp tb) x"
  using loop_map [OF assms, where mem = mem and g = "\<lambda>d. tb_exp tb (val x) * d"]
  by (simp add: exp_Eval_def Let_def chain_rule_def Evaluation_default_def)

lemma log_Eval_chain:
  assumes "wf_Evaluation numVars x"
  shows "log_Eval tb mem numVars x = chain_rule (tb_log tb) (\<lambda>v. 1 / v) x"
  using loop_map [OF assms, where mem = mem and g = "\<lambda>d. 1 / val x * d"]
  by (simp add: log_Eval_def Let_def chain_rule_def Evaluation_default_def)

lemma sqrt_Eval_chain:
  assumes "wf_Evaluation numVars x"
  shows "sqrt_Eval tb mem numVars x = chain_rule (tb_sqrt tb) (\<lambda>v. 1 / (2 * tb_sqrt tb v)) x"
  using loop_map [OF assms, where mem = mem and g = "\<lambda>d. 0.5 / tb_sqrt tb (val x) * d"]
  by (simp add: sqrt_Eval_def Let_def chain_rule_def Evaluation_default_def)

text \<open>
  C2. For each unary function \<open>f\<close> among sin, cos, tan, asin, acos, atan, exp, log and
  sqrt and every AD value \<open>x = (v, d)\<close> of \<open>numVars\<close> variables, the result is
  \<open>(f v, f' v * d[i])\<close> for every \<open>i\<close>, where \<open>f' v\<close> is \<open>cos v\<close> for sin, \<open>- sin v\<close> for
  cos, \<open>1 + (tan v)\<^sup>2\<close> for tan, \<open>1 / sqrt (1 - v\<^sup>2)\<close> for asin, \<open>- 1 / sqrt (1 - v\<^sup>2)\<close> for
  acos, \<open>1 / (1 + v\<^sup>2)\<close> for atan, \<open>exp v\<close> for exp, \<open>1 / v\<close> for log and
  \<open>1 / (2 * sqrt v)\<close> for sqrt; the scalar functions are those of the inner toolbox.
\<close>

theorem unary_chain_rule:
  assumes "wf_Evaluation numVars x"
  shows "sin_Eval tb mem numVars x = chain_rule (tb_sin tb) (tb_cos tb) x \<and>
         cos_Eval tb mem numVars x = chain_rule (tb_cos tb) (\<lambda>v. - tb_sin tb v) x \<and>
         tan_Eval tb mem numVars x = chain_rule (tb_tan tb) (\<lambda>v. 1 + (tb_tan tb v)\<^sup>2) x \<and>
         asin_Eval tb mem numVars x = chain_rule (tb_asin tb) (\<lambda>v. 1 / tb_sqrt tb (1 - v\<^sup>2)) x \<and>
         acos_Eval tb mem numVars x = chain_rule (tb_acos tb) (\<lambda>v. - 1 / tb_sqrt tb (1 - v\<^sup>2)) x \<and>
         atan_Eval tb mem numVars x = chain_rule (tb_atan tb) (\<lambda>v. 1 / (1 + v\<^sup>2)) x \<and>
         exp_Eval tb mem numVars x = chain_rule (tb_exp tb) (tb_exp tb) x \<and>
         log_Eval tb mem numVars x = chain_rule (tb_log tb) (\<lambda>v. 1 / v) x \<and>
         sqrt_Eval tb mem numVars x = chain_rule (tb_sqrt tb) (\<lambda>v. 1 / (2 * tb_sqrt tb v)) x"
  using assms
  by (simp only: sin_Eval_chain cos_Eval_chain tan_Eval_chain asin_Eval_chain acos_Eval_chain
      atan_Eval_chain exp_Eval_chain log_Eval_chain sqrt_Eval_chain simp_thms)

theorem unary_chain_rule_witness:
  "sin_Eval real_toolbox (99, \<lambda>_. 99) 2 \<lparr>val = 0, derivatives = [2, 7]\<rparr> = \<lparr>val = 0, derivatives = [2, 7]\<rparr> \<and>
   cos_Eval real_toolbox (99, \<lambda>_. 99) 2 \<lparr>val = 0, derivatives = [2, 7]\<rparr> = \<lparr>val = 1, derivatives = [0, 0]\<rparr> \<and>
   tan_Eval real_toolbox (99, \<lambda>_. 99) 2 \<lparr>val = 0, derivatives = [2, 7]\<rparr> = \<lparr>val = 0, derivatives = [2, 7]\<rparr> \<and>
   asin_Eval real_toolbox (99, \<lambda>_. 99) 2 \<lparr>val = 0, derivatives = [2, 7]\<rparr> = \<lparr>val = 0, derivatives = [2, 7]\<rparr> \<and>
   acos_Eval real_toolbox (99, \<lambda>_. 99) 2 \<lparr>val = 0, derivatives = [2, 7]\<rparr> = \<lparr>val = pi / 2, derivatives = [- 2, - 7]\<rparr> \<and>
   atan_Eval real_toolbox (99, \<lambda>_. 99) 2 \<lparr>val = 0, derivatives = [2, 7]\<rparr> = \<lparr>val = 0, derivatives = [2, 7]\<rparr> \<and>
   exp_Eval real_toolbox (99, \<lambda>_. 99) 2 \<lparr>val = 0, derivatives = [2, 7]\<rparr> = \<lparr>val = 1, derivatives = [2, 7]\<rparr> \<and>
   log_Eval real_toolbox (99, \<lambda>_. 99) 2 \<lparr>val = 1, derivatives = [2, 7]\<rparr> = \<lparr>val = 0, derivatives = [2, 7]\<rparr> \<and>
   sqrt_Eval real_toolbox (99, \<lambda>_. 99) 2 \<lparr>val = 1, derivatives = [2, 7]\<rparr> = \<lparr>val = 1, derivatives = [1, 7 / 2]\<rparr>"
  using
    unary_chain_rule [of 2 "\<lparr>val = 0, derivatives = [2, 7]\<rparr>" real_toolbox "(99, \<lambda>_. 99)"]
    unary_chain_rule [of 2 "\<lparr>val = 1, derivatives = [2, 7]\<rparr>" real_toolbox "(99, \<lambda>_. 99)"]
  by (simp add: wf_Evaluation_def chain_rule_def real_toolbox_def)

subsection \<open>pow\<close>

text \<open>
  C1. For every AD value \<open>base\<close> whose scalar field is zero, each of the three \<^verbatim>\<open>pow\<close>
  overloads (AD base with constant exponent, constant base with AD exponent, AD base
  with AD exponent) returns the all-zero AD value, whatever the exponent, the scalar
  type and its arithmetic, the scalar backend and the initial content \<open>mem\<close> of the
  result. The test \<^verbatim>\<open>base == 0.0\<close> on an AD
  base and the assignment \<^verbatim>\<open>result = 0.0\<close> are the operators of \<^verbatim>\<open>Evaluation\<close> as the
  specification describes them.
\<close>

theorem pow_zero_base:
  fixes base e :: "'a::{zero,plus,times,inverse} Evaluation"
  assumes "val base = 0"
  shows "pow_Eval_Scalar tb mem numVars base c = \<lparr>val = 0, derivatives = replicate numVars 0\<rparr> \<and>
         pow_Scalar_Eval tb mem numVars (val base) e = \<lparr>val = 0, derivatives = replicate numVars 0\<rparr> \<and>
         pow_Eval_Eval tb mem numVars base e = \<lparr>val = 0, derivatives = replicate numVars 0\<rparr>"
  using assms
  by (simp add: pow_Eval_Scalar_def pow_Scalar_Eval_def pow_Eval_Eval_def Let_def eq_Scalar_def
      assign_Scalar_def Evaluation_default_def)

theorem pow_zero_base_witness:
  "pow_Eval_Scalar real_toolbox (99, \<lambda>_. 99) 2 \<lparr>val = 0, derivatives = [5, 9]\<rparr> 2
     = \<lparr>val = 0, derivatives = [0, 0]\<rparr> \<and>
   pow_Scalar_Eval real_toolbox (99, \<lambda>_. 99) 2 0 \<lparr>val = - 1, derivatives = [5, 9]\<rparr>
     = \<lparr>val = 0, derivatives = [0, 0]\<rparr> \<and>
   pow_Eval_Eval real_toolbox (99, \<lambda>_. 99) 2 \<lparr>val = 0, derivatives = [5, 9]\<rparr> \<lparr>val = - 1, derivatives = [5, 9]\<rparr>
     = \<lparr>val = 0, derivatives = [0, 0]\<rparr> \<and>
   pow_Eval_Scalar ieee_nan_toolbox (NaN, \<lambda>_. NaN) 2 \<lparr>val = Fin 0, derivatives = [Fin 5, Fin 9]\<rparr> (Fin 2)
     = \<lparr>val = Fin 0, derivatives = [Fin 0, Fin 0]\<rparr> \<and>
   pow_Eval_Eval ieee_nan_toolbox (NaN, \<lambda>_. NaN) 2 \<lparr>val = Fin 0, derivatives = [Fin 5, Fin 9]\<rparr>
       \<lparr>val = Fin 2, derivatives = [Fin 1, Fin 0]\<rparr>
     = \<lparr>val = Fin 0, derivatives = [Fin 0, Fin 0]\<rparr>"
  using
    pow_zero_base [of "\<lparr>val = 0, derivatives = [5, 9]\<rparr>" real_toolbox "(99, \<lambda>_. 99)" 2 2
        "\<lparr>val = - 1, derivatives = [5, 9]\<rparr>"]
    pow_zero_base [of "\<lparr>val = Fin 0, derivatives = [Fin 5, Fin 9]\<rparr>" ieee_nan_toolbox
        "(NaN, \<lambda>_. NaN)" 2 "Fin 2" "\<lparr>val = Fin 2, derivatives = [Fin 1, Fin 0]\<rparr>"]
  by (simp add: numeral_2_eq_2 zero_ieee_def)

subsection \<open>pow: agreement of the overloads\<close>

lemma pow_Eval_Scalar_unfold:
  "val base \<noteq> 0 \<Longrightarrow>
   pow_Eval_Scalar tb mem numVars base c =
     \<lparr>val = tb_pow tb (val base) c,
      derivatives = map (\<lambda>i. tb_pow tb (val base) c / val base * c * derivatives base ! i)
                      [0..<numVars]\<rparr>"
  unfolding pow_Eval_Scalar_def Let_def eq_Scalar_def
  by (simp add: for_curVarIdx_all Evaluation_default_def)

lemma pow_Scalar_Eval_unfold:
  "base \<noteq> 0 \<Longrightarrow>
   pow_Scalar_Eval tb mem numVars base e =
     \<lparr>val = tb_exp tb (tb_log tb base * val e),
      derivatives = map (\<lambda>i. tb_log tb base * tb_exp tb (tb_log tb base * val e) * derivatives e ! i)
                      [0..<numVars]\<rparr>"
  unfolding pow_Scalar_Eval_def Let_def
  by (simp add: for_curVarIdx_all Evaluation_default_def)

lemma pow_Eval_Eval_unfold:
  "val base \<noteq> 0 \<Longrightarrow>
   pow_Eval_Eval tb mem numVars base e =
     \<lparr>val = tb_pow tb (val base) (val e),
      derivatives = map (\<lambda>i. (val e * derivatives base ! i / val base
                               + tb_log tb (val base) * derivatives e ! i)
                              * tb_pow tb (val base) (val e))
                      [0..<numVars]\<rparr>"
  unfolding pow_Eval_Eval_def Let_def eq_Scalar_def
  by (simp add: for_curVarIdx_all Evaluation_default_def)

lemma powr_2_3: "(2::real) powr 3 = 8"
proof -
  have "(2::real) powr 3 = 2 powr (real (3::nat))" by simp
  also have "\<dots> = 2 ^ 3" by (subst powr_realpow) simp_all
  finally show ?thesis by simp
qed

lemma exp_ln_2_3: "exp (ln (2::real) * 3) = 8"
proof -
  have "exp (ln (2::real) * 3) = 2 powr 3"
    by (simp add: powr_def mult.commute)
  then show ?thesis by (simp add: powr_2_3)
qed

lemma real_toolbox_pow_2_3: "tb_pow real_toolbox 2 3 = 8"
  by (simp add: real_toolbox_def powr_2_3)

lemma real_toolbox_exp_log_2_3: "tb_exp real_toolbox (tb_log real_toolbox 2 * 3) = 8"
  by (simp add: real_toolbox_def exp_ln_2_3)

lemma createConstant_simps:
  "val (createConstant numVars c) = c"
  "i < numVars \<Longrightarrow> derivatives (createConstant numVars c) ! i = 0"
  by (simp_all add: createConstant_def)

lemma pow_const_exponent_agree:
  fixes base :: "real Evaluation"
  assumes "val base = 2"
  shows "pow_Eval_Eval tb mem numVars base (createConstant numVars 3)
           = pow_Eval_Scalar tb mem' numVars base 3"
  using assms by (simp add: pow_Eval_Eval_unfold pow_Eval_Scalar_unfold createConstant_simps)

lemma pow_const_base_difference:
  fixes e :: "real Evaluation"
  assumes "val e = 3" and "i < numVars"
  shows "derivatives (pow_Eval_Eval tb mem numVars (createConstant numVars 2) e) ! i
           - derivatives (pow_Scalar_Eval tb mem' numVars 2 e) ! i
         = tb_log tb 2 * derivatives e ! i * (tb_pow tb 2 3 - tb_exp tb (tb_log tb 2 * 3))"
  using assms
  by (simp add: pow_Eval_Eval_unfold pow_Scalar_Eval_unfold createConstant_simps algebra_simps)

text \<open>
  C5. For \<open>val base = 2\<close> and \<open>val e = 3\<close> the three \<^verbatim>\<open>pow\<close> overloads agree. Over the
  real-analysis backend, the constant-exponent overload, the constant-base overload and
  the AD/AD overload with the non-varying operand a constant (all derivatives zero) all
  have scalar field 8, and the AD/AD overload has the derivative vector of the overload
  whose single AD operand is the varying one. Over any backend \<open>tb\<close>, the AD/AD overload
  with a constant exponent equals the constant-exponent overload; and when \<open>tb\<close>'s
  \<^verbatim>\<open>pow(2, 3)\<close> and \<^verbatim>\<open>exp(log(2) * 3)\<close> are within \<open>tolerance\<close> of 8, so are the four
  scalar fields, and the derivatives of the AD/AD overload with a constant base and of
  the constant-base overload differ in component \<open>i\<close> by at most
  \<open>\<bar>log(2) * e'[i]\<bar> * 2 * tolerance\<close>.
\<close>

theorem pow_overloads_agree:
  assumes "wf_Evaluation numVars base" and "wf_Evaluation numVars e"
    and "val base = 2" and "val e = 3"
  shows "val (pow_Eval_Scalar real_toolbox m1 numVars base 3) = 8 \<and>
         val (pow_Scalar_Eval real_toolbox m2 numVars 2 e) = 8 \<and>
         val (pow_Eval_Eval real_toolbox m3 numVars base (createConstant numVars 3)) = 8 \<and>
         val (pow_Eval_Eval real_toolbox m4 numVars (createConstant numVars 2) e) = 8 \<and>
         derivatives (pow_Eval_Eval real_toolbox m3 numVars base (createConstant numVars 3))
           = derivatives (pow_Eval_Scalar real_toolbox m1 numVars base 3) \<and>
         derivatives (pow_Eval_Eval real_toolbox m4 numVars (createConstant numVars 2) e)
           = derivatives (pow_Scalar_Eval real_toolbox m2 numVars 2 e) \<and>
         val (pow_Eval_Eval tb m3 numVars base (createConstant numVars 3))
           = val (pow_Eval_Scalar tb m1 numVars base 3) \<and>
         derivatives (pow_Eval_Eval tb m3 numVars base (createConstant numVars 3))
           = derivatives (pow_Eval_Scalar tb m1 numVars base 3) \<and>
         (\<bar>tb_pow tb 2 3 - 8\<bar> \<le> tolerance \<and> \<bar>tb_exp tb (tb_log tb 2 * 3) - 8\<bar> \<le> tolerance \<longrightarrow>
            \<bar>val (pow_Eval_Scalar tb m1 numVars base 3) - 8\<bar> \<le> tolerance \<and>
            \<bar>val (pow_Scalar_Eval tb m2 numVars 2 e) - 8\<bar> \<le> tolerance \<and>
            \<bar>val (pow_Eval_Eval tb m3 numVars base (createConstant numVars 3)) - 8\<bar> \<le> tolerance \<and>
            \<bar>val (pow_Eval_Eval tb m4 numVars (createConstant numVars 2) e) - 8\<bar> \<le> tolerance \<and>
            (\<forall>i<numVars.
               \<bar>derivatives (pow_Eval_Eval tb m4 numVars (createConstant numVars 2) e) ! i
                  - derivatives (pow_Scalar_Eval tb m2 numVars 2 e) ! i\<bar>
                 \<le> \<bar>tb_log tb 2 * derivatives e ! i\<bar> * (2 * tolerance)))"
proof -
  note vals = \<open>val base = 2\<close> \<open>val e = 3\<close>
  have exact_values:
    "val (pow_Eval_Scalar real_toolbox m1 numVars base 3) = 8"
    "val (pow_Scalar_Eval real_toolbox m2 numVars 2 e) = 8"
    "val (pow_Eval_Eval real_toolbox m3 numVars base (createConstant numVars 3)) = 8"
    "val (pow_Eval_Eval real_toolbox m4 numVars (createConstant numVars 2) e) = 8"
    using vals real_toolbox_pow_2_3 real_toolbox_exp_log_2_3
    by (simp_all add: pow_Eval_Scalar_unfold pow_Scalar_Eval_unfold pow_Eval_Eval_unfold
        createConstant_simps)
  have exact_base: "derivatives (pow_Eval_Eval real_toolbox m3 numVars base (createConstant numVars 3))
      = derivatives (pow_Eval_Scalar real_toolbox m1 numVars base 3)"
    using pow_const_exponent_agree [OF vals(1), of real_toolbox m3 numVars m1] by simp
  have exact_exp: "derivatives (pow_Eval_Eval real_toolbox m4 numVars (createConstant numVars 2) e)
      = derivatives (pow_Scalar_Eval real_toolbox m2 numVars 2 e)"
  proof (rule nth_equalityI)
    show "length (derivatives (pow_Eval_Eval real_toolbox m4 numVars (createConstant numVars 2) e))
        = length (derivatives (pow_Scalar_Eval real_toolbox m2 numVars 2 e))"
      using vals by (simp add: pow_Eval_Eval_unfold pow_Scalar_Eval_unfold createConstant_simps)
  next
    fix i
    assume "i < length (derivatives (pow_Eval_Eval real_toolbox m4 numVars (createConstant numVars 2) e))"
    then have "i < numVars"
      using vals by (simp add: pow_Eval_Eval_unfold createConstant_simps)
    from pow_const_base_difference [OF vals(2) this, of real_toolbox m4 m2]
    show "derivatives (pow_Eval_Eval real_toolbox m4 numVars (createConstant numVars 2) e) ! i
        = derivatives (pow_Scalar_Eval real_toolbox m2 numVars 2 e) ! i"
      using real_toolbox_pow_2_3 real_toolbox_exp_log_2_3 by simp
  qed
  have any_backend:
    "pow_Eval_Eval tb m3 numVars base (createConstant numVars 3) = pow_Eval_Scalar tb m1 numVars base 3"
    by (rule pow_const_exponent_agree [OF vals(1)])
  have within: "\<bar>val (pow_Eval_Scalar tb m1 numVars base 3) - 8\<bar> \<le> tolerance \<and>
      \<bar>val (pow_Scalar_Eval tb m2 numVars 2 e) - 8\<bar> \<le> tolerance \<and>
      \<bar>val (pow_Eval_Eval tb m3 numVars base (createConstant numVars 3)) - 8\<bar> \<le> tolerance \<and>
      \<bar>val (pow_Eval_Eval tb m4 numVars (createConstant numVars 2) e) - 8\<bar> \<le> tolerance \<and>
      (\<forall>i<numVars.
         \<bar>derivatives (pow_Eval_Eval tb m4 numVars (createConstant numVars 2) e) ! i
            - derivatives (pow_Scalar_Eval tb m2 numVars 2 e) ! i\<bar>
           \<le> \<bar>tb_log tb 2 * derivatives e ! i\<bar> * (2 * tolerance))"
    if close: "\<bar>tb_pow tb 2 3 - 8\<bar> \<le> tolerance" "\<bar>tb_exp tb (tb_log tb 2 * 3) - 8\<bar> \<le> tolerance"
  proof -
    have gap: "\<bar>tb_pow tb 2 3 - tb_exp tb (tb_log tb 2 * 3)\<bar> \<le> 2 * tolerance"
      using close by linarith
    have deriv: "\<bar>derivatives (pow_Eval_Eval tb m4 numVars (createConstant numVars 2) e) ! i
            - derivatives (pow_Scalar_Eval tb m2 numVars 2 e) ! i\<bar>
           \<le> \<bar>tb_log tb 2 * derivatives e ! i\<bar> * (2 * tolerance)" if "i < numVars" for i
    proof -
      have "\<bar>derivatives (pow_Eval_Eval tb m4 numVars (createConstant numVars 2) e) ! i
            - derivatives (pow_Scalar_Eval tb m2 numVars 2 e) ! i\<bar>
          = \<bar>tb_log tb 2 * derivatives e ! i\<bar> * \<bar>tb_pow tb 2 3 - tb_exp tb (tb_log tb 2 * 3)\<bar>"
        by (simp only: pow_const_base_difference [OF vals(2) that] abs_mult)
      also have "\<dots> \<le> \<bar>tb_log tb 2 * derivatives e ! i\<bar> * (2 * tolerance)"
        using gap by (intro mult_left_mono) simp_all
      finally show ?thesis .
    qed
    show ?thesis
      using close vals deriv
      by (simp add: pow_Eval_Scalar_unfold pow_Scalar_Eval_unfold pow_Eval_Eval_unfold
          createConstant_simps)
  qed
  from exact_values exact_base exact_exp any_backend within show ?thesis
    by simp
qed

theorem pow_overloads_agree_witness:
  "val (pow_Eval_Scalar real_toolbox (99, \<lambda>_. 99) 2 \<lparr>val = 2, derivatives = [1, 0]\<rparr> 3) = 8 \<and>
   val (pow_Scalar_Eval real_toolbox (99, \<lambda>_. 99) 2 2 \<lparr>val = 3, derivatives = [0, 1]\<rparr>) = 8 \<and>
   val (pow_Eval_Eval real_toolbox (99, \<lambda>_. 99) 2 \<lparr>val = 2, derivatives = [1, 0]\<rparr> (createConstant 2 3)) = 8 \<and>
   val (pow_Eval_Eval real_toolbox (99, \<lambda>_. 99) 2 (createConstant 2 2) \<lparr>val = 3, derivatives = [0, 1]\<rparr>) = 8 \<and>
   derivatives (pow_Eval_Eval real_toolbox (99, \<lambda>_. 99) 2 \<lparr>val = 2, derivatives = [1, 0]\<rparr> (createConstant 2 3))
     = derivatives (pow_Eval_Scalar real_toolbox (99, \<lambda>_. 99) 2 \<lparr>val = 2, derivatives = [1, 0]\<rparr> 3) \<and>
   derivatives (pow_Eval_Eval real_toolbox (99, \<lambda>_. 99) 2 (createConstant 2 2) \<lparr>val = 3, derivatives = [0, 1]\<rparr>)
     = derivatives (pow_Scalar_Eval real_toolbox (99, \<lambda>_. 99) 2 2 \<lparr>val = 3, derivatives = [0, 1]\<rparr>) \<and>
   derivatives (pow_Eval_Scalar real_toolbox (99, \<lambda>_. 99) 2 \<lparr>val = 2, derivatives = [1, 0]\<rparr> 3) = [12, 0] \<and>
   derivatives (pow_Scalar_Eval real_toolbox (99, \<lambda>_. 99) 2 2 \<lparr>val = 3, derivatives = [0, 1]\<rparr>) = [0, ln 2 * 8] \<and>
   \<bar>tb_pow (real_toolbox\<lparr>tb_exp := \<lambda>x. exp x - 1 / 1000\<rparr>) 2 3 - 8\<bar> \<le> 1 / 100 \<and>
   \<bar>tb_exp (real_toolbox\<lparr>tb_exp := \<lambda>x. exp x - 1 / 1000\<rparr>) (tb_log (real_toolbox\<lparr>tb_exp := \<lambda>x. exp x - 1 / 1000\<rparr>) 2 * 3) - 8\<bar> \<le> 1 / 100 \<and>
   val (pow_Scalar_Eval (real_toolbox\<lparr>tb_exp := \<lambda>x. exp x - 1 / 1000\<rparr>) (99, \<lambda>_. 99) 2 2 \<lparr>val = 3, derivatives = [0, 1]\<rparr>) = 8 - 1 / 1000 \<and>
   \<bar>val (pow_Scalar_Eval (real_toolbox\<lparr>tb_exp := \<lambda>x. exp x - 1 / 1000\<rparr>) (99, \<lambda>_. 99) 2 2 \<lparr>val = 3, derivatives = [0, 1]\<rparr>) - 8\<bar> \<le> 1 / 100 \<and>
   \<bar>derivatives (pow_Eval_Eval (real_toolbox\<lparr>tb_exp := \<lambda>x. exp x - 1 / 1000\<rparr>) (99, \<lambda>_. 99) 2 (createConstant 2 2) \<lparr>val = 3, derivatives = [0, 1]\<rparr>) ! 0
      - derivatives (pow_Scalar_Eval (real_toolbox\<lparr>tb_exp := \<lambda>x. exp x - 1 / 1000\<rparr>) (99, \<lambda>_. 99) 2 2 \<lparr>val = 3, derivatives = [0, 1]\<rparr>) ! 0\<bar>
     \<le> \<bar>tb_log (real_toolbox\<lparr>tb_exp := \<lambda>x. exp x - 1 / 1000\<rparr>) 2 * derivatives \<lparr>val = 3, derivatives = [0, 1]\<rparr> ! 0\<bar> * (2 * (1 / 100)) \<and>
   \<bar>derivatives (pow_Eval_Eval (real_toolbox\<lparr>tb_exp := \<lambda>x. exp x - 1 / 1000\<rparr>) (99, \<lambda>_. 99) 2 (createConstant 2 2) \<lparr>val = 3, derivatives = [0, 1]\<rparr>) ! 1
      - derivatives (pow_Scalar_Eval (real_toolbox\<lparr>tb_exp := \<lambda>x. exp x - 1 / 1000\<rparr>) (99, \<lambda>_. 99) 2 2 \<lparr>val = 3, derivatives = [0, 1]\<rparr>) ! 1\<bar>
     \<le> \<bar>tb_log (real_toolbox\<lparr>tb_exp := \<lambda>x. exp x - 1 / 1000\<rparr>) 2 * derivatives \<lparr>val = 3, derivatives = [0, 1]\<rparr> ! 1\<bar> * (2 * (1 / 100))"
proof -
  have wf: "wf_Evaluation 2 \<lparr>val = 2, derivatives = [1, 0]\<rparr>" "wf_Evaluation 2 \<lparr>val = 3, derivatives = [0, 1]\<rparr>"
    by (simp_all add: wf_Evaluation_def)
  have vals: "val \<lparr>val = 2, derivatives = [1, 0]\<rparr> = 2" "val \<lparr>val = 3, derivatives = [0, 1]\<rparr> = 3"
    by simp_all
  have close: "\<bar>tb_pow (real_toolbox\<lparr>tb_exp := \<lambda>x. exp x - 1 / 1000\<rparr>) 2 3 - 8\<bar> \<le> 1 / 100"
    "\<bar>tb_exp (real_toolbox\<lparr>tb_exp := \<lambda>x. exp x - 1 / 1000\<rparr>) (tb_log (real_toolbox\<lparr>tb_exp := \<lambda>x. exp x - 1 / 1000\<rparr>) 2 * 3) - 8\<bar> \<le> 1 / 100"
    by (simp_all add: real_toolbox_def powr_2_3 exp_ln_2_3)
  have perturbed: "val (pow_Scalar_Eval (real_toolbox\<lparr>tb_exp := \<lambda>x. exp x - 1 / 1000\<rparr>) (99, \<lambda>_. 99) 2 2 \<lparr>val = 3, derivatives = [0, 1]\<rparr>) = 8 - 1 / 1000"
    by (simp add: pow_Scalar_Eval_unfold real_toolbox_def exp_ln_2_3)
  have d1: "derivatives (pow_Eval_Scalar real_toolbox (99, \<lambda>_. 99) 2 \<lparr>val = 2, derivatives = [1, 0]\<rparr> 3) = [12, 0]"
    using real_toolbox_pow_2_3 by (simp add: pow_Eval_Scalar_unfold upt_rec)
  have d2: "derivatives (pow_Scalar_Eval real_toolbox (99, \<lambda>_. 99) 2 2 \<lparr>val = 3, derivatives = [0, 1]\<rparr>) = [0, ln 2 * 8]"
  proof -
    have "tb_log real_toolbox 2 = ln 2"
      by (simp add: real_toolbox_def)
    with real_toolbox_exp_log_2_3 show ?thesis
      by (simp add: pow_Scalar_Eval_unfold upt_rec)
  qed
  note agree = pow_overloads_agree [OF wf vals, of "(99, \<lambda>_. 99)" "(99, \<lambda>_. 99)" "(99, \<lambda>_. 99)" "(99, \<lambda>_. 99)" "(real_toolbox\<lparr>tb_exp := \<lambda>x. exp x - 1 / 1000\<rparr>)" "1 / 100"]
  have "(0::nat) < 2" and "(1::nat) < 2"
    by simp_all
  with agree close perturbed d1 d2 show ?thesis
    by blast
qed

subsection \<open>isSame\<close>

lemma isSame_derivatives_iff:
  "isSame_derivatives tb i numVars a b tolerance \<longleftrightarrow>
     (\<forall>j. i \<le> j \<and> j < numVars \<longrightarrow> tb_isSame tb (derivatives a ! j) (derivatives b ! j) tolerance)"
proof (induction tb i numVars a b tolerance rule: isSame_derivatives.induct)
  case (1 tb i numVars a b tolerance)
  show ?case
  proof (cases "i < numVars")
    case False
    then show ?thesis
      by (subst isSame_derivatives.simps) auto
  next
    case True
    show ?thesis
    proof (cases "tb_isSame tb (derivatives a ! i) (derivatives b ! i) tolerance")
      case False
      then have "\<not> isSame_derivatives tb i numVars a b tolerance"
        using True by (subst isSame_derivatives.simps) simp
      moreover have "\<not> (\<forall>j. i \<le> j \<and> j < numVars \<longrightarrow>
                          tb_isSame tb (derivatives a ! j) (derivatives b ! j) tolerance)"
        using True False by auto
      ultimately show ?thesis by simp
    next
      case same: True
      have "isSame_derivatives tb i numVars a b tolerance
              = isSame_derivatives tb (Suc i) numVars a b tolerance"
        using True same by (subst isSame_derivatives.simps) simp
      also have "\<dots> \<longleftrightarrow> (\<forall>j. Suc i \<le> j \<and> j < numVars \<longrightarrow>
                          tb_isSame tb (derivatives a ! j) (derivatives b ! j) tolerance)"
        using "1.IH" True same by simp
      also have "\<dots> \<longleftrightarrow> (\<forall>j. i \<le> j \<and> j < numVars \<longrightarrow>
                          tb_isSame tb (derivatives a ! j) (derivatives b ! j) tolerance)"
        using same by (metis Suc_leD Suc_leI le_neq_implies_less)
      finally show ?thesis .
    qed
  qed
qed

text \<open>
  C6. For AD values \<open>a\<close>, \<open>b\<close> and every tolerance, \<^verbatim>\<open>isSame(a, b, tolerance)\<close> of the
  AD toolbox is true if and only if the inner toolbox's \<^verbatim>\<open>isSame\<close> holds for the two
  scalar fields and for each of the \<open>numVars\<close> pairs of derivative components; a
  single failing comparison makes it false.
\<close>

theorem isSame_iff:
  "isSame tb numVars a b tolerance \<longleftrightarrow>
     tb_isSame tb (val a) (val b) tolerance \<and>
     (\<forall>i<numVars. tb_isSame tb (derivatives a ! i) (derivatives b ! i) tolerance)"
  by (simp add: isSame_def isSame_derivatives_iff)

theorem isSame_iff_witness:
  "isSame real_toolbox 2 \<lparr>val = 3, derivatives = [2, 7]\<rparr> \<lparr>val = 3, derivatives = [2, 7.05]\<rparr> 0.1 \<and>
   \<not> isSame real_toolbox 2 \<lparr>val = 3, derivatives = [2, 7]\<rparr> \<lparr>val = 3, derivatives = [2, 7.5]\<rparr> 0.1"
  using
    isSame_iff [of real_toolbox 2 "\<lparr>val = 3, derivatives = [2, 7]\<rparr>" "\<lparr>val = 3, derivatives = [2, 7.05]\<rparr>" "0.1"]
    isSame_iff [of real_toolbox 2 "\<lparr>val = 3, derivatives = [2, 7]\<rparr>" "\<lparr>val = 3, derivatives = [2, 7.5]\<rparr>" "0.1"]
  by (simp add: real_toolbox_def numeral_2_eq_2 less_Suc_eq)

subsection \<open>atan2\<close>

lemma atan2_Eval_unfold:
  "atan2_Eval tb mem numVars x y =
     \<lparr>val = tb_atan2 tb (val x) (val y),
      derivatives = map (\<lambda>i. 1 / (1 + (val x * val x) / (val y * val y)) / (val y * val y)
                               * (derivatives x ! i * val y - val x * derivatives y ! i))
                      [0..<numVars]\<rparr>"
  unfolding atan2_Eval_def Let_def
  by (simp only: for_curVarIdx_all length_default Evaluation.simps Evaluation.update_convs
      Evaluation_default_def length_map length_upt diff_zero)

lemma atan2_claimed_real:
  fixes x y :: "real Evaluation"
  shows "atan2_claimed x y i =
     1 / (1 + (val x * val x) / (val y * val y)) / (val y * val y)
       * (derivatives x ! i * val y - val x * derivatives y ! i)"
  by (simp add: atan2_claimed_def Let_def power2_eq_square)

text \<open>
  C7, as amended. For AD values \<open>x\<close>, \<open>y\<close> of \<open>numVars\<close> variables over any scalar type,
  \<^verbatim>\<open>atan2(x, y)\<close> has scalar field \<open>atan2 (val x) (val y)\<close>, and for every variable
  index \<open>i\<close> its derivative is
  \<open>alpha / (val y * val y) * (x'[i] * val y - val x * y'[i])\<close> with
  \<open>alpha = 1 / (1 + (val x * val x) / (val y * val y))\<close>, in the arithmetic of the scalar
  type. There is no side condition on \<open>val y\<close>: at \<open>val y = 0\<close> the quotients are whatever
  that arithmetic yields. Over the reals with \<open>val y \<noteq> 0\<close> this is the derivative as the
  claim words it, with \<open>alpha = 1 / (1 + (val x / val y)\<^sup>2)\<close>.
\<close>

theorem atan2_Eval_derivatives:
  fixes x y :: "'a::{one,plus,minus,times,inverse} Evaluation"
    and xr yr :: "real Evaluation"
  assumes "wf_Evaluation numVars x" and "wf_Evaluation numVars y"
    and "wf_Evaluation numVars xr" and "wf_Evaluation numVars yr"
  shows "val (atan2_Eval tb mem numVars x y) = tb_atan2 tb (val x) (val y) \<and>
         length (derivatives (atan2_Eval tb mem numVars x y)) = numVars \<and>
         (\<forall>i<numVars.
            derivatives (atan2_Eval tb mem numVars x y) ! i =
              1 / (1 + (val x * val x) / (val y * val y)) / (val y * val y)
              * (derivatives x ! i * val y - val x * derivatives y ! i)) \<and>
         (val yr \<noteq> 0 \<longrightarrow>
            (\<forall>i<numVars.
               derivatives (atan2_Eval tbr memr numVars xr yr) ! i = atan2_claimed xr yr i))"
  by (simp add: atan2_Eval_unfold atan2_claimed_real)

lemma list_of_length_2: "length xs = 2 \<Longrightarrow> xs = [xs ! 0, xs ! 1]"
  by (auto simp: length_Suc_conv numeral_2_eq_2)

lemmas ieee_arith =
  zero_ieee_def one_ieee_def plus_ieee_def minus_ieee_def times_ieee_def divide_ieee_def
  round_overflow_def

theorem atan2_Eval_derivatives_witness:
  "atan2_Eval real_toolbox (99, \<lambda>_. 99) 2 \<lparr>val = 1, derivatives = [1, 0]\<rparr> \<lparr>val = 2, derivatives = [0, 1]\<rparr>
     = \<lparr>val = arctan (1 / 2), derivatives = [2 / 5, - 1 / 5]\<rparr> \<and>
   atan2_claimed \<lparr>val = 1, derivatives = [1, 0]\<rparr> \<lparr>val = 2, derivatives = [0, 1 :: real]\<rparr> 0 = 2 / 5 \<and>
   atan2_claimed \<lparr>val = 1, derivatives = [1, 0]\<rparr> \<lparr>val = 2, derivatives = [0, 1 :: real]\<rparr> 1 = - 1 / 5 \<and>
   derivatives (atan2_Eval ieee_nan_toolbox (Fin 99, \<lambda>_. Fin 99) 2
      \<lparr>val = Fin 1, derivatives = [Fin 1, Fin 0]\<rparr> \<lparr>val = Fin 0, derivatives = [Fin 0, Fin 1]\<rparr>)
     = [NaN, NaN]"
proof -
  let ?x = "\<lparr>val = 1, derivatives = [1, 0]\<rparr> :: real Evaluation"
  let ?y = "\<lparr>val = 2, derivatives = [0, 1]\<rparr> :: real Evaluation"
  let ?a = "\<lparr>val = Fin 1, derivatives = [Fin 1, Fin 0]\<rparr>"
  let ?b = "\<lparr>val = Fin 0, derivatives = [Fin 0, Fin 1]\<rparr>"
  have wf: "wf_Evaluation 2 ?x" "wf_Evaluation 2 ?y" "wf_Evaluation 2 ?a" "wf_Evaluation 2 ?b"
    by (simp_all add: wf_Evaluation_def)
  note R = atan2_Eval_derivatives [OF wf(1) wf(2) wf(1) wf(2),
      of real_toolbox "(99, \<lambda>_. 99)" real_toolbox "(99, \<lambda>_. 99)"]
  note I = atan2_Eval_derivatives [OF wf(3) wf(4) wf(1) wf(2),
      of ieee_nan_toolbox "(Fin 99, \<lambda>_. Fin 99)" real_toolbox "(99, \<lambda>_. 99)"]
  have v: "val (atan2_Eval real_toolbox (99, \<lambda>_. 99) 2 ?x ?y) = arctan (1 / 2)"
    using R by (simp add: real_toolbox_def atan2_real_def)
  have l: "length (derivatives (atan2_Eval real_toolbox (99, \<lambda>_. 99) 2 ?x ?y)) = 2"
    using R by simp
  have d0: "derivatives (atan2_Eval real_toolbox (99, \<lambda>_. 99) 2 ?x ?y) ! 0 = 2 / 5"
    using R [THEN conjunct2, THEN conjunct2, THEN conjunct1, rule_format, of 0] by simp
  have d1: "derivatives (atan2_Eval real_toolbox (99, \<lambda>_. 99) 2 ?x ?y) ! 1 = - 1 / 5"
    using R [THEN conjunct2, THEN conjunct2, THEN conjunct1, rule_format, of 1] by simp
  have c0: "atan2_claimed ?x ?y 0 = 2 / 5"
    using R [THEN conjunct2, THEN conjunct2, THEN conjunct2, rule_format, of 0] d0 by simp
  have c1: "atan2_claimed ?x ?y 1 = - 1 / 5"
    using R [THEN conjunct2, THEN conjunct2, THEN conjunct2, rule_format, of 1] d1 by simp
  have real_result: "atan2_Eval real_toolbox (99, \<lambda>_. 99) 2 ?x ?y
      = \<lparr>val = arctan (1 / 2), derivatives = [2 / 5, - 1 / 5]\<rparr>"
    using list_of_length_2 [OF l] d0 d1 v by (simp add: Evaluation.equality)
  have il: "length (derivatives (atan2_Eval ieee_nan_toolbox (Fin 99, \<lambda>_. Fin 99) 2 ?a ?b)) = 2"
    using I by simp
  have i0: "derivatives (atan2_Eval ieee_nan_toolbox (Fin 99, \<lambda>_. Fin 99) 2 ?a ?b) ! 0 = NaN"
    using I [THEN conjunct2, THEN conjunct2, THEN conjunct1, rule_format, of 0]
    by (simp add: ieee_arith)
  have i1: "derivatives (atan2_Eval ieee_nan_toolbox (Fin 99, \<lambda>_. Fin 99) 2 ?a ?b) ! 1 = NaN"
    using I [THEN conjunct2, THEN conjunct2, THEN conjunct1, rule_format, of 1]
    by (simp add: ieee_arith)
  have ieee_result: "derivatives (atan2_Eval ieee_nan_toolbox (Fin 99, \<lambda>_. Fin 99) 2 ?a ?b) = [NaN, NaN]"
    using list_of_length_2 [OF il] i0 i1 by simp
  from real_result c0 c1 ieee_result show ?thesis
    by simp
qed

text \<open>
  The derivative as the claim words it is not the code's in every arithmetic. At
  \<open>val x = val y = 2\<^sup>7\<^sup>0\<^sup>0\<close> in \<^typ>\<open>ieee\<close> no operation rounds; the code's
  \<open>val x * val x\<close> and \<open>val y * val y\<close> overflow, their quotient is NaN and so is the
  derivative, while \<open>val x / val y\<close> is 1 and the worded formula gives 0.
\<close>

theorem atan2_claim_counterexample:
  "derivatives (atan2_Eval ieee_nan_toolbox (NaN, \<lambda>_. NaN) 1
      \<lparr>val = Fin (2 ^ 700), derivatives = [Fin 1]\<rparr>
      \<lparr>val = Fin (2 ^ 700), derivatives = [Fin 0]\<rparr>) ! 0 = NaN \<and>
   atan2_claimed \<lparr>val = Fin (2 ^ 700), derivatives = [Fin 1]\<rparr>
      \<lparr>val = Fin (2 ^ 700), derivatives = [Fin 0]\<rparr> 0 = Fin 0 \<and>
   derivatives (atan2_Eval ieee_nan_toolbox (NaN, \<lambda>_. NaN) 1
      \<lparr>val = Fin (2 ^ 700), derivatives = [Fin 1]\<rparr>
      \<lparr>val = Fin (2 ^ 700), derivatives = [Fin 0]\<rparr>) ! 0
     \<noteq> atan2_claimed \<lparr>val = Fin (2 ^ 700), derivatives = [Fin 1]\<rparr>
          \<lparr>val = Fin (2 ^ 700), derivatives = [Fin 0]\<rparr> 0"
proof -
  have code: "derivatives (atan2_Eval ieee_nan_toolbox (NaN, \<lambda>_. NaN) 1
      \<lparr>val = Fin (2 ^ 700), derivatives = [Fin 1]\<rparr>
      \<lparr>val = Fin (2 ^ 700), derivatives = [Fin 0]\<rparr>) ! 0 = NaN"
    by (simp add: atan2_Eval_unfold ieee_arith)
  have claim: "atan2_claimed \<lparr>val = Fin (2 ^ 700), derivatives = [Fin 1]\<rparr>
      \<lparr>val = Fin (2 ^ 700), derivatives = [Fin 0]\<rparr> 0 = Fin 0"
    by (simp add: atan2_claimed_def Let_def numeral_2_eq_2 ieee_arith)
  from code claim show ?thesis
    by simp
qed

end
